theory Spec2Isabelle
  imports Complex_Main "HOL-Library.Word"
begin

unbundle bit_operations_syntax

section \<open>Python values\<close>

text \<open>
  A Python float is an IEEE-754 binary64 value, kept as its bit pattern. The values that
  \<open>json.loads\<close> produces are \<open>None\<close>, booleans, integers, floats, strings, lists and
  dictionaries with string keys. A dictionary is the list of its items in insertion order;
  its keys are distinct, and a lookup takes the item stored under the key.
\<close>

type_synonym pyfloat = "64 word"

datatype json =
    JNull
  | JBool bool
  | JInt int
  | JFloat pyfloat
  | JStr string
  | JArr "json list"
  | JObj "(string \<times> json) list"

text \<open>
  The exception classes that the adapter names or that its own operations raise.
  \<open>OtherException\<close> stands for a subclass of \<open>Exception\<close> unrelated to the named ones,
  \<open>NonException\<close> for a \<open>BaseException\<close> outside \<open>Exception\<close> (\<open>KeyboardInterrupt\<close>,
  \<open>SystemExit\<close>). The classes of errors/invoke and errors/validate have no subclasses
  of each other except that every Invoke class derives from \<open>InvokeError\<close>.
\<close>

datatype exn_class =
    InvokeError
  | InvokeConnectionError
  | InvokeServerUnavailableError
  | InvokeRateLimitError
  | InvokeAuthorizationError
  | InvokeBadRequestError
  | CredentialsValidateFailedError
  | JSONDecodeError
  | KeyError
  | TypeError
  | ValueError
  | OverflowError
  | OtherException string
  | NonException string

text \<open>
  An exception is its class and what it was constructed with: a Python value
  (\<open>Arg\<close>), another exception (\<open>Cause\<close>, as in \<open>InvokeConnectionError(e)\<close>), or a
  message chosen by the interpreter (\<open>Interp\<close>).
\<close>

datatype exn = Exn (cls: exn_class) (payload: payload)
and payload = Interp | Arg json | Cause exn

fun is_Exception :: "exn_class \<Rightarrow> bool" where
  "is_Exception (NonException n) = False"
| "is_Exception c = True"

subsection \<open>Subscription, iteration, equality with an integer\<close>

text \<open>\<open>v[k]\<close> for a string key \<open>k\<close>: only a dictionary can be subscripted by a string.\<close>

fun subscript :: "json \<Rightarrow> string \<Rightarrow> exn + json" where
  "subscript (JObj kvs) k =
     (case map_of kvs k of
        None \<Rightarrow> Inl (Exn KeyError (Arg (JStr k)))
      | Some v \<Rightarrow> Inr v)"
| "subscript v k = Inl (Exn TypeError Interp)"

text \<open>
  \<open>for x in v\<close>: a list yields its elements, a dictionary its keys, a string its
  characters as strings of length one; the other values are not iterable.
\<close>

fun iterate :: "json \<Rightarrow> exn + json list" where
  "iterate (JArr xs) = Inr xs"
| "iterate (JObj kvs) = Inr (map (\<lambda>kv. JStr (fst kv)) kvs)"
| "iterate (JStr s) = Inr (map (\<lambda>c. JStr [c]) s)"
| "iterate v = Inl (Exn TypeError Interp)"

text \<open>
  \<open>x == n\<close> for a float \<open>x\<close> and an integer \<open>n\<close> compares the exact values: the
  float is \<open>\<plusminus> (2^52 + m) * 2^(e - 1075)\<close> for a biased exponent \<open>0 < e < 2047\<close>, a
  subnormal or zero for \<open>e = 0\<close>, and an infinity or a NaN for \<open>e = 2047\<close>.
\<close>

definition float_eq_int :: "pyfloat \<Rightarrow> int \<Rightarrow> bool" where
  "float_eq_int w n =
     (let e = uint (drop_bit 52 w AND 0x7FF);
          m = uint (w AND 0xFFFFFFFFFFFFF);
          s = (if bit w 63 then - 1 else 1 :: int)
      in if e = 2047 then False
         else if e = 0 then m = 0 \<and> n = 0
         else if 1075 \<le> e then n = s * (2 ^ 52 + m) * 2 ^ nat (e - 1075)
         else n * 2 ^ nat (1075 - e) = s * (2 ^ 52 + m))"

text \<open>\<open>v == n\<close> for a parsed value \<open>v\<close> and an integer \<open>n\<close>; \<open>True\<close> is 1, \<open>False\<close> is 0.\<close>

fun py_eq_int :: "json \<Rightarrow> int \<Rightarrow> bool" where
  "py_eq_int (JInt i) n = (i = n)"
| "py_eq_int (JFloat w) n = float_eq_int w n"
| "py_eq_int (JBool b) n = ((if b then 1 else 0) = n)"
| "py_eq_int v n = False"

subsection \<open>Paths\<close>

text \<open>
  \<open>os.path.join\<close> and \<open>os.path.dirname\<close> of a POSIX system: a component that starts
  with the separator replaces the path built so far, and no separator is added after a
  path that is empty or already ends with one.
\<close>

definition join_step :: "string \<Rightarrow> string \<Rightarrow> string" where
  "join_step path b =
     (if b \<noteq> [] \<and> hd b = CHR ''/'' then b
      else if path = [] \<or> last path = CHR ''/'' then path @ b
      else path @ ''/'' @ b)"

definition join :: "string \<Rightarrow> string list \<Rightarrow> string" where
  "join a p = foldl join_step a p"

definition dirname :: "string \<Rightarrow> string" where
  "dirname p =
     (let head = rev (dropWhile (\<lambda>c. c \<noteq> CHR ''/'') (rev p))
      in if head \<noteq> [] \<and> head \<noteq> replicate (length head) (CHR ''/'')
         then rev (dropWhile (\<lambda>c. c = CHR ''/'') (rev head))
         else head)"

section \<open>The embedding client (localai/text\_embedding/text\_embedding.py)\<close>

subsection \<open>Data\<close>

record request =
  url :: string
  headers :: "(string \<times> string) list"
  data :: string
  timeout :: int

text \<open>
  What the adapter reads of a response: the status code, the raw text, and the outcome
  of \<open>response.json()\<close>, which returns the parsed body or raises.
\<close>

record response =
  status_code :: int
  raw_text :: string
  json :: "exn + json"

text \<open>
  Modelled from the spec: the entities \<open>PriceType\<close>, \<open>PriceInfo\<close>, \<open>EmbeddingUsage\<close> and
  \<open>TextEmbeddingResult\<close> are declared outside these sources. The records hold the fields
  that the adapter reads and passes; prices are decimal numbers, the latency is a float.
\<close>

datatype price_type = INPUT | OUTPUT

record price_info =
  unit_price :: rat
  unit :: rat
  total_amount :: rat
  currency :: string

record embedding_usage =
  tokens :: int
  total_tokens :: int
  usage_unit_price :: rat
  price_unit :: rat
  total_price :: rat
  usage_currency :: string
  latency :: pyfloat

record text_embedding_result =
  model :: string
  embeddings :: "pyfloat list list"
  usage :: embedding_usage

text \<open>
  What the adapter calls and does not define: \<open>requests.post\<close>, \<open>json.dumps\<close>,
  \<open>str\<close> of an exception, the builtin \<open>float\<close> on an integer and on a string,
  \<open>get_price\<close> of the base class, the validation that the usage entity applies to a
  token count that is not an integer, and \<open>time.perf_counter() - self.started_at\<close>.
\<close>

record env =
  post :: "request \<Rightarrow> exn + response"
  dumps :: "json \<Rightarrow> string"
  str_exn :: "exn \<Rightarrow> string"
  float_of_int :: "int \<Rightarrow> exn + pyfloat"
  float_of_str :: "string \<Rightarrow> exn + pyfloat"
  get_price :: "string \<Rightarrow> (string \<rightharpoonup> string) \<Rightarrow> price_type \<Rightarrow> json \<Rightarrow> exn + price_info"
  check_int :: "json \<Rightarrow> exn + int"
  elapsed :: pyfloat

subsection \<open>Usage\<close>

text \<open>
  Modelled from the spec: the token counts of \<open>EmbeddingUsage\<close> are integers. An integer
  is stored as it is, and a value of another type goes through the validation
  \<open>check_int\<close> of the entity, which is not among the sources.
\<close>

definition as_int :: "env \<Rightarrow> json \<Rightarrow> exn + int" where
  "as_int env v = (case v of JInt n \<Rightarrow> Inr n | _ \<Rightarrow> check_int env v)"

text \<open>
  Modelled from the spec: the constructor call \<open>EmbeddingUsage(tokens=..., ...)\<close> of
  lines 164 to 172, which fills the fields with its arguments.
\<close>

definition EmbeddingUsage ::
  "env \<Rightarrow> json \<Rightarrow> json \<Rightarrow> rat \<Rightarrow> rat \<Rightarrow> rat \<Rightarrow> string \<Rightarrow> pyfloat \<Rightarrow> exn + embedding_usage" where
  "EmbeddingUsage env t tt up pu tp cur lat =
     (case as_int env t of
        Inl e \<Rightarrow> Inl e
      | Inr n \<Rightarrow>
          (case as_int env tt of
             Inl e \<Rightarrow> Inl e
           | Inr m \<Rightarrow>
               Inr \<lparr>tokens = n, total_tokens = m, usage_unit_price = up, price_unit = pu,
                    total_price = tp, usage_currency = cur, latency = lat\<rparr>))"

text \<open>\<open>_calc_response_usage\<close> (lines 146 to 174).\<close>

definition calc_response_usage ::
  "env \<Rightarrow> string \<Rightarrow> (string \<rightharpoonup> string) \<Rightarrow> json \<Rightarrow> exn + embedding_usage" where
  "calc_response_usage env model_name credentials toks =
     (case get_price env model_name credentials INPUT toks of
        Inl e \<Rightarrow> Inl e
      | Inr input_price_info \<Rightarrow>
          EmbeddingUsage env toks toks (unit_price input_price_info) (unit input_price_info)
            (total_amount input_price_info) (currency input_price_info) (elapsed env))"

subsection \<open>The embeddings of a parsed body\<close>

text \<open>\<open>float(data)\<close> on a parsed value.\<close>

fun py_float :: "env \<Rightarrow> json \<Rightarrow> exn + pyfloat" where
  "py_float env (JFloat w) = Inr w"
| "py_float env (JInt n) = float_of_int env n"
| "py_float env (JBool b) = float_of_int env (if b then 1 else 0)"
| "py_float env (JStr s) = float_of_str env s"
| "py_float env v = Inl (Exn TypeError Interp)"

text \<open>A list comprehension whose body may raise: the first exception ends it.\<close>

fun comprehension :: "('a \<Rightarrow> exn + 'b) \<Rightarrow> 'a list \<Rightarrow> exn + 'b list" where
  "comprehension f [] = Inr []"
| "comprehension f (x # xs) =
     (case f x of
        Inl e \<Rightarrow> Inl e
      | Inr y \<Rightarrow> (case comprehension f xs of Inl e \<Rightarrow> Inl e | Inr ys \<Rightarrow> Inr (y # ys)))"

text \<open>\<open>[float(data) for data in x['embedding']]\<close> (lines 88 to 90).\<close>

definition embedding_of :: "env \<Rightarrow> json \<Rightarrow> exn + pyfloat list" where
  "embedding_of env x =
     (case subscript x ''embedding'' of
        Inl e \<Rightarrow> Inl e
      | Inr v \<Rightarrow>
          (case iterate v of
             Inl e \<Rightarrow> Inl e
           | Inr ds \<Rightarrow> comprehension (py_float env) ds))"

subsection \<open>The response\<close>

definition parse_failure :: "env \<Rightarrow> exn \<Rightarrow> response \<Rightarrow> exn" where
  "parse_failure env e r =
     Exn InvokeServerUnavailableError
       (Arg (JStr (''Failed to convert response to json: '' @ str_exn env e
                   @ '' with text: '' @ raw_text r)))"

text \<open>
  Lines 58 to 75, for a status other than 200. Only a \<open>JSONDecodeError\<close> is caught;
  every path raises.
\<close>

definition error_response :: "env \<Rightarrow> response \<Rightarrow> exn" where
  "error_response env r =
     (case json r of
        Inl e \<Rightarrow> if cls e = JSONDecodeError then parse_failure env e r else e
      | Inr resp \<Rightarrow>
          (case subscript resp ''error'' of
             Inl e \<Rightarrow> e
           | Inr err \<Rightarrow>
               (case subscript err ''code'' of
                  Inl e \<Rightarrow> e
                | Inr code \<Rightarrow>
                    (case subscript resp ''error'' of
                       Inl e \<Rightarrow> e
                     | Inr err' \<Rightarrow>
                         (case subscript err' ''message'' of
                            Inl e \<Rightarrow> e
                          | Inr msg \<Rightarrow>
                              if py_eq_int code 500 then Exn InvokeServerUnavailableError (Arg msg)
                              else if status_code r = 401 then Exn InvokeAuthorizationError (Arg msg)
                              else if status_code r = 429 then Exn InvokeRateLimitError (Arg msg)
                              else if status_code r = 500 then Exn InvokeServerUnavailableError (Arg msg)
                              else Exn InvokeError (Arg msg))))))"

text \<open>
  Lines 77 to 82: the body, its \<open>data\<close> and its \<open>usage\<close>, read under
  \<open>except Exception\<close>.
\<close>

definition read_body :: "env \<Rightarrow> response \<Rightarrow> exn + json \<times> json" where
  "read_body env r =
     (let attempt =
            (case json r of
               Inl e \<Rightarrow> Inl e
             | Inr resp \<Rightarrow>
                 (case subscript resp ''data'' of
                    Inl e \<Rightarrow> Inl e
                  | Inr embs \<Rightarrow>
                      (case subscript resp ''usage'' of
                         Inl e \<Rightarrow> Inl e
                       | Inr us \<Rightarrow> Inr (embs, us))))
      in case attempt of
           Inl e \<Rightarrow> if is_Exception (cls e) then Inl (parse_failure env e r) else Inl e
         | Inr p \<Rightarrow> Inr p)"

text \<open>Lines 58 to 94: what \<open>_invoke\<close> does with the response it received.\<close>

definition handle_response ::
  "env \<Rightarrow> string \<Rightarrow> (string \<rightharpoonup> string) \<Rightarrow> response \<Rightarrow> exn + text_embedding_result" where
  "handle_response env model_name credentials r =
     (if status_code r \<noteq> 200 then Inl (error_response env r)
      else
        case read_body env r of
          Inl e \<Rightarrow> Inl e
        | Inr (embs, us) \<Rightarrow>
            (case subscript us ''total_tokens'' of
               Inl e \<Rightarrow> Inl e
             | Inr toks \<Rightarrow>
                 (case calc_response_usage env model_name credentials toks of
                    Inl e \<Rightarrow> Inl e
                  | Inr u \<Rightarrow>
                      (case iterate embs of
                         Inl e \<Rightarrow> Inl e
                       | Inr xs \<Rightarrow>
                           (case comprehension (embedding_of env) xs of
                              Inl e \<Rightarrow> Inl e
                            | Inr vs \<Rightarrow>
                                Inr \<lparr>model = model_name, embeddings = vs, usage = u\<rparr>)))))"

subsection \<open>The request and the call\<close>

text \<open>Lines 42 to 54: the request that is handed to \<open>post\<close>.\<close>

definition embeddings_request :: "env \<Rightarrow> string \<Rightarrow> string \<Rightarrow> string \<Rightarrow> request" where
  "embeddings_request env server_url model_name input =
     \<lparr>url = join server_url [''embeddings''],
      headers = [(''Authorization'', ''Bearer 123''), (''Content-Type'', ''application/json'')],
      data = dumps env (JObj [(''model'', JStr model_name), (''input'', JStr input)]),
      timeout = 10\<rparr>"

text \<open>
  \<open>_invoke\<close> (lines 20 to 94). The first component of the result is the list of the
  requests handed to \<open>post\<close>, in order; the second is the exception raised or the result
  returned. Credentials are a dictionary of strings.
\<close>

definition invoke ::
  "env \<Rightarrow> string \<Rightarrow> (string \<rightharpoonup> string) \<Rightarrow> string list
     \<Rightarrow> request list \<times> (exn + text_embedding_result)" where
  "invoke env model_name credentials texts =
     (if length texts \<noteq> 1 then
        ([], Inl (Exn InvokeBadRequestError (Arg (JStr ''Only one text is supported''))))
      else
        case credentials ''server_url'' of
          None \<Rightarrow> ([], Inl (Exn KeyError (Arg (JStr ''server_url''))))
        | Some server_url \<Rightarrow>
            if server_url = [] then
              ([], Inl (Exn CredentialsValidateFailedError (Arg (JStr ''server_url is required''))))
            else if model_name = [] then
              ([], Inl (Exn CredentialsValidateFailedError (Arg (JStr ''model_name is required''))))
            else
              let req = embeddings_request env server_url model_name (texts ! 0)
              in ([req],
                  case post env req of
                    Inl e \<Rightarrow>
                      if is_Exception (cls e) then Inl (Exn InvokeConnectionError (Cause e))
                      else Inl e
                  | Inr r \<Rightarrow> handle_response env model_name credentials r))"

text \<open>\<open>validate_credentials\<close> (lines 111 to 124), probing with the text \<open>ping\<close>.\<close>

definition validate_credentials ::
  "env \<Rightarrow> string \<Rightarrow> (string \<rightharpoonup> string) \<Rightarrow> request list \<times> (exn + unit)" where
  "validate_credentials env model_name credentials =
     (case invoke env model_name credentials [''ping''] of
        (sent, Inl e) \<Rightarrow>
          if cls e = InvokeAuthorizationError then
            (sent, Inl (Exn CredentialsValidateFailedError (Arg (JStr ''Invalid credentials''))))
          else if cls e = InvokeConnectionError then
            (sent, Inl (Exn CredentialsValidateFailedError
                          (Arg (JStr (''Invalid credentials: '' @ str_exn env e)))))
          else (sent, Inl e)
      | (sent, Inr res) \<Rightarrow> (sent, Inr ()))"

section \<open>The tokenizer accessor (minimax/tokenizer.py)\<close>

text \<open>
  The module's global \<open>tokenizer\<close>, \<open>None\<close> when the module is loaded, with the list of
  the paths handed to \<open>GPT2Tokenizer.from_pretrained\<close> so far. The loader and the
  absolute path of the module file are given from outside; the loader's answer may
  depend on how many loads came before.
\<close>

record 'h tok_state =
  tokenizer :: "'h option"
  loads :: "string list"

record 'h tok_env =
  module_file :: string
  from_pretrained :: "string \<Rightarrow> nat \<Rightarrow> exn + 'h"

definition initial :: "'h tok_state" where
  "initial = \<lparr>tokenizer = None, loads = []\<rparr>"

definition gpt2_tokenizer_path :: "'h tok_env \<Rightarrow> string" where
  "gpt2_tokenizer_path env =
     join (dirname (module_file env)) [''..'', ''__base'', ''tokenizers'', ''gpt2'']"

text \<open>\<open>get_encoder\<close> (lines 22 to 30).\<close>

definition get_encoder :: "'h tok_env \<Rightarrow> 'h tok_state \<Rightarrow> (exn + 'h) \<times> 'h tok_state" where
  "get_encoder env s =
     (case tokenizer s of
        Some t \<Rightarrow> (Inr t, s)
      | None \<Rightarrow>
          (case from_pretrained env (gpt2_tokenizer_path env) (length (loads s)) of
             Inl e \<Rightarrow> (Inl e, s\<lparr>loads := loads s @ [gpt2_tokenizer_path env]\<rparr>)
           | Inr t \<Rightarrow>
               (Inr t, s\<lparr>tokenizer := Some t, loads := loads s @ [gpt2_tokenizer_path env]\<rparr>)))"

text \<open>\<open>n\<close> calls in a row: what each returned, and the state after the last.\<close>

fun calls :: "'h tok_env \<Rightarrow> nat \<Rightarrow> 'h tok_state \<Rightarrow> (exn + 'h) list \<times> 'h tok_state" where
  "calls env 0 s = ([], s)"
| "calls env (Suc n) s =
     (case get_encoder env s of
        (r, s') \<Rightarrow> (case calls env n s' of (rs, s'') \<Rightarrow> (r # rs, s'')))"

section \<open>Sample collaborators\<close>

text \<open>
  A server that answers every request with the response \<open>r\<close>, a price table without an
  entry for the model (zero price in USD), and an entity that rejects a token count that
  is not an integer.
\<close>

definition sample_env :: "response \<Rightarrow> env" where
  "sample_env r =
     \<lparr>post = (\<lambda>req. Inr r),
      dumps = (\<lambda>v. ''{}''),
      str_exn = (\<lambda>e. ''error''),
      float_of_int = (\<lambda>n. if n = 0 then Inr 0 else Inl (Exn OverflowError Interp)),
      float_of_str = (\<lambda>s. Inl (Exn ValueError Interp)),
      get_price = (\<lambda>m c p t. Inr \<lparr>unit_price = 0, unit = 0, total_amount = 0, currency = ''USD''\<rparr>),
      check_int = (\<lambda>v. Inl (Exn (OtherException ''ValidationError'') Interp)),
      elapsed = 0\<rparr>"

definition sample_credentials :: "string \<rightharpoonup> string" where
  "sample_credentials = [''server_url'' \<mapsto> ''http://localhost:8080'']"

text \<open>
  Responses of such a server: the body of the specification's example, where the floats
  are the doubles nearest to 0.1 and 0.2; a body without entries; a body whose usage
  has no token count; an error body.
\<close>

definition ok_response :: response where
  "ok_response =
     \<lparr>status_code = 200, raw_text = ''ok'',
      json = Inr (JObj [(''data'', JArr [JObj [(''embedding'',
                          JArr [JFloat 0x3FB999999999999A, JFloat 0x3FC999999999999A])]]),
                        (''usage'', JObj [(''total_tokens'', JInt 5)])])\<rparr>"

definition empty_data_response :: response where
  "empty_data_response =
     \<lparr>status_code = 200, raw_text = ''empty'',
      json = Inr (JObj [(''data'', JArr []), (''usage'', JObj [(''total_tokens'', JInt 5)])])\<rparr>"

definition no_total_tokens_response :: response where
  "no_total_tokens_response =
     \<lparr>status_code = 200, raw_text = ''no total'',
      json = Inr (JObj [(''data'', JArr []), (''usage'', JObj [])])\<rparr>"

definition malformed_response :: response where
  "malformed_response =
     \<lparr>status_code = 200, raw_text = ''<html>'', json = Inl (Exn JSONDecodeError Interp)\<rparr>"

definition no_data_response :: response where
  "no_data_response =
     \<lparr>status_code = 200, raw_text = ''no data'',
      json = Inr (JObj [(''usage'', JObj [(''total_tokens'', JInt 5)])])\<rparr>"

definition error_reply :: "int \<Rightarrow> json \<Rightarrow> response" where
  "error_reply status code =
     \<lparr>status_code = status, raw_text = ''error'',
      json = Inr (JObj [(''error'',
                         JObj [(''code'', code), (''message'', JStr ''bad key'')])])\<rparr>"

text \<open>The same collaborators with a server that cannot be reached.\<close>

definition offline_env :: env where
  "offline_env =
     (sample_env ok_response)
       \<lparr>post := (\<lambda>req. Inl (Exn (OtherException ''ConnectionError'') Interp))\<rparr>"

text \<open>
  A loader that never fails and hands out a new object at every load: the object is
  numbered by the loads that came before it.
\<close>

definition sample_tok_env :: "nat tok_env" where
  "sample_tok_env =
     \<lparr>module_file = ''/app/minimax/tokenizer.py'', from_pretrained = (\<lambda>path k. Inr k)\<rparr>"

section \<open>Auxiliary facts\<close>

lemmas response_defs =
  handle_response_def read_body_def error_response_def parse_failure_def
  calc_response_usage_def EmbeddingUsage_def as_int_def embedding_of_def

lemma comprehension_length:
  "comprehension f xs = Inr ys \<Longrightarrow> length ys = length xs"
  by (induction xs arbitrary: ys) (auto split: sum.splits)

text \<open>With one text, a server URL and a model name, the request goes out.\<close>

lemma invoke_valid:
  assumes "length texts = 1" and "credentials ''server_url'' = Some u" and "u \<noteq> []"
    and "model_name \<noteq> []"
  shows "invoke env model_name credentials texts =
           ([embeddings_request env u model_name (texts ! 0)],
            case post env (embeddings_request env u model_name (texts ! 0)) of
              Inl e \<Rightarrow>
                if is_Exception (cls e) then Inl (Exn InvokeConnectionError (Cause e))
                else Inl e
            | Inr r \<Rightarrow> handle_response env model_name credentials r)"
  using assms by (simp add: invoke_def Let_def)

lemma invoke_answered:
  assumes "length texts = 1" and "credentials ''server_url'' = Some u" and "u \<noteq> []"
    and "model_name \<noteq> []"
    and "post env (embeddings_request env u model_name (texts ! 0)) = Inr r"
  shows "snd (invoke env model_name credentials texts) =
           handle_response env model_name credentials r"
  using assms by (simp add: invoke_valid)

lemma invoke_returns:
  assumes "snd (invoke env model_name credentials texts) = Inr res"
  shows "length texts = 1 \<and>
         (\<exists>u r. credentials ''server_url'' = Some u \<and>
                post env (embeddings_request env u model_name (texts ! 0)) = Inr r \<and>
                handle_response env model_name credentials r = Inr res)"
  using assms
  by (auto simp: invoke_def Let_def split: if_splits option.splits sum.splits)

lemma read_body_returns:
  assumes "read_body env r = Inr (d, us)"
  shows "\<exists>body. json r = Inr body \<and> subscript body ''data'' = Inr d \<and>
                subscript body ''usage'' = Inr us"
  using assms
  by (auto simp: read_body_def Let_def split: sum.splits if_splits)

lemma handle_response_returns:
  assumes "handle_response env model_name credentials r = Inr res"
  shows "\<exists>body d xs. json r = Inr body \<and> subscript body ''data'' = Inr d \<and>
           iterate d = Inr xs \<and> length (embeddings res) = length xs"
proof -
  from assms obtain d us xs vs where rb: "read_body env r = Inr (d, us)"
    and it: "iterate d = Inr xs"
    and co: "comprehension (embedding_of env) xs = Inr vs"
    and res: "embeddings res = vs"
    by (auto simp: handle_response_def split: if_splits sum.splits prod.splits)
  from read_body_returns [OF rb] obtain body where
    "json r = Inr body" "subscript body ''data'' = Inr d" by blast
  with it comprehension_length [OF co] res show ?thesis by auto
qed

text \<open>The sample server: the probe goes out and the response is handled.\<close>

lemma sample_invoke:
  "invoke (sample_env r) ''m'' sample_credentials [''ping''] =
     ([embeddings_request (sample_env r) ''http://localhost:8080'' ''m'' ''ping''],
      handle_response (sample_env r) ''m'' sample_credentials r)"
  by (simp add: invoke_def Let_def sample_credentials_def) (simp add: sample_env_def)

lemma sample_post:
  "post (sample_env r) req = Inr r"
  by (simp add: sample_env_def)

lemma sample_empty_data:
  "handle_response (sample_env empty_data_response) ''m'' sample_credentials empty_data_response =
     Inr \<lparr>model = ''m'', embeddings = [],
          usage = \<lparr>tokens = 5, total_tokens = 5, usage_unit_price = 0, price_unit = 0,
                   total_price = 0, usage_currency = ''USD'', latency = 0\<rparr>\<rparr>"
  by (simp add: response_defs empty_data_response_def sample_env_def)

lemma sample_ok:
  "handle_response (sample_env ok_response) ''m'' sample_credentials ok_response =
     Inr \<lparr>model = ''m'', embeddings = [[0x3FB999999999999A, 0x3FC999999999999A]],
          usage = \<lparr>tokens = 5, total_tokens = 5, usage_unit_price = 0, price_unit = 0,
                   total_price = 0, usage_currency = ''USD'', latency = 0\<rparr>\<rparr>"
  by (simp add: response_defs ok_response_def sample_env_def)

lemma sample_no_total_tokens:
  "handle_response (sample_env no_total_tokens_response) ''m'' sample_credentials
       no_total_tokens_response =
     Inl (Exn KeyError (Arg (JStr ''total_tokens'')))"
  by (simp add: response_defs no_total_tokens_response_def sample_env_def)

lemma sample_error_reply:
  "handle_response (sample_env (error_reply status code)) ''m'' sample_credentials
       (error_reply status code) =
     (if status = 200 then
        Inl (Exn InvokeServerUnavailableError
               (Arg (JStr ''Failed to convert response to json: error with text: error'')))
      else if py_eq_int code 500 then
        Inl (Exn InvokeServerUnavailableError (Arg (JStr ''bad key'')))
      else if status = 401 then Inl (Exn InvokeAuthorizationError (Arg (JStr ''bad key'')))
      else if status = 429 then Inl (Exn InvokeRateLimitError (Arg (JStr ''bad key'')))
      else if status = 500 then Inl (Exn InvokeServerUnavailableError (Arg (JStr ''bad key'')))
      else Inl (Exn InvokeError (Arg (JStr ''bad key''))))"
  by (simp add: response_defs error_reply_def sample_env_def)

section \<open>Properties\<close>

text \<open>
  C1, as amended: a call of \<open>_invoke\<close> that returns was made with one text, and the
  embeddings of its result are as many as the elements of the \<open>data\<close> value in the body
  of the response; the adapter does not compare that number with the number of texts.
\<close>

theorem invoke_embeddings_length:
  assumes "snd (invoke env model_name credentials texts) = Inr res"
  shows "length texts = 1 \<and>
         (\<exists>u r body d xs. credentials ''server_url'' = Some u \<and>
            post env (embeddings_request env u model_name (texts ! 0)) = Inr r \<and>
            json r = Inr body \<and> subscript body ''data'' = Inr d \<and> iterate d = Inr xs \<and>
            length (embeddings res) = length xs)"
proof -
  from invoke_returns [OF assms] obtain u r where
    "length texts = 1" "credentials ''server_url'' = Some u"
    "post env (embeddings_request env u model_name (texts ! 0)) = Inr r"
    "handle_response env model_name credentials r = Inr res" by blast
  with handle_response_returns [of env model_name credentials r res]
  show ?thesis by blast
qed

theorem invoke_embeddings_length_witness:
  "snd (invoke (sample_env ok_response) ''m'' sample_credentials [''ping'']) =
     Inr \<lparr>model = ''m'', embeddings = [[0x3FB999999999999A, 0x3FC999999999999A]],
          usage = \<lparr>tokens = 5, total_tokens = 5, usage_unit_price = 0, price_unit = 0,
                   total_price = 0, usage_currency = ''USD'', latency = 0\<rparr>\<rparr> \<and>
   length [''ping''] = 1 \<and>
   (\<exists>u r body d xs. sample_credentials ''server_url'' = Some u \<and>
      post (sample_env ok_response) (embeddings_request (sample_env ok_response) u ''m''
        ([''ping''] ! 0)) = Inr r \<and>
      json r = Inr body \<and> subscript body ''data'' = Inr d \<and> iterate d = Inr xs \<and>
      length [[0x3FB999999999999A, 0x3FC999999999999A :: pyfloat]] = length xs)"
proof -
  have h: "snd (invoke (sample_env ok_response) ''m'' sample_credentials [''ping'']) =
     Inr \<lparr>model = ''m'', embeddings = [[0x3FB999999999999A, 0x3FC999999999999A]],
          usage = \<lparr>tokens = 5, total_tokens = 5, usage_unit_price = 0, price_unit = 0,
                   total_price = 0, usage_currency = ''USD'', latency = 0\<rparr>\<rparr>"
    by (simp add: sample_invoke sample_ok)
  show ?thesis using h invoke_embeddings_length [OF h] by simp
qed

text \<open>
  The claim as written fails: the sample server answers one text with a body whose
  \<open>data\<close> is empty, and the call returns a result without embeddings.
\<close>

theorem invoke_embeddings_length_counterexample:
  "snd (invoke (sample_env empty_data_response) ''m'' sample_credentials [''ping'']) =
     Inr \<lparr>model = ''m'', embeddings = [],
          usage = \<lparr>tokens = 5, total_tokens = 5, usage_unit_price = 0, price_unit = 0,
                   total_price = 0, usage_currency = ''USD'', latency = 0\<rparr>\<rparr> \<and>
   length ([] :: pyfloat list list) \<noteq> length [''ping'']"
  by (simp add: sample_invoke sample_empty_data)

text \<open>
  C2, as amended: for one text and credentials that hold a \<open>server_url\<close>, an empty
  \<open>server_url\<close> or an empty model name makes \<open>_invoke\<close> raise
  \<open>CredentialsValidateFailedError\<close>, and no request is handed to \<open>post\<close>.
\<close>

theorem invoke_empty_credentials:
  assumes "length texts = 1" and "credentials ''server_url'' = Some u"
    and "u = [] \<or> model_name = []"
  shows "invoke env model_name credentials texts =
           ([], Inl (Exn CredentialsValidateFailedError
                       (Arg (JStr (if u = [] then ''server_url is required''
                                   else ''model_name is required'')))))"
  using assms by (auto simp: invoke_def)

theorem invoke_empty_credentials_witness:
  "length [''ping''] = 1 \<and> [''server_url'' \<mapsto> ''''] ''server_url'' = Some '''' \<and>
   invoke (sample_env ok_response) ''m'' [''server_url'' \<mapsto> ''''] [''ping''] =
     ([], Inl (Exn CredentialsValidateFailedError (Arg (JStr ''server_url is required'')))) \<and>
   sample_credentials ''server_url'' = Some ''http://localhost:8080'' \<and>
   invoke (sample_env ok_response) '''' sample_credentials [''ping''] =
     ([], Inl (Exn CredentialsValidateFailedError (Arg (JStr ''model_name is required''))))"
  using invoke_empty_credentials [of "[''ping'']" "[''server_url'' \<mapsto> '''']" "''''"
      "''m''" "sample_env ok_response"]
    invoke_empty_credentials [of "[''ping'']" sample_credentials "''http://localhost:8080''"
      "''''" "sample_env ok_response"]
  by (simp add: sample_credentials_def)

text \<open>
  The claim as written fails twice: without the key \<open>server_url\<close> the lookup raises
  \<open>KeyError\<close>, and with two texts the length test comes first.
\<close>

theorem invoke_empty_credentials_counterexample:
  "invoke (sample_env ok_response) ''m'' Map.empty [''ping''] =
     ([], Inl (Exn KeyError (Arg (JStr ''server_url'')))) \<and>
   invoke (sample_env ok_response) ''m'' [''server_url'' \<mapsto> ''''] [''a'', ''b''] =
     ([], Inl (Exn InvokeBadRequestError (Arg (JStr ''Only one text is supported''))))"
  by (simp add: invoke_def)

text \<open>
  C3: a response with a status other than 200 whose body holds \<open>error.code\<close> and
  \<open>error.message\<close> makes \<open>_invoke\<close> raise, with the message as argument,
  \<open>InvokeServerUnavailableError\<close> when the code equals 500, whatever the status; otherwise
  \<open>InvokeAuthorizationError\<close> for status 401, \<open>InvokeRateLimitError\<close> for 429,
  \<open>InvokeServerUnavailableError\<close> for 500 and \<open>InvokeError\<close> for every other status.
\<close>

theorem invoke_error_dispatch:
  assumes "length texts = 1" and "credentials ''server_url'' = Some u" and "u \<noteq> []"
    and "model_name \<noteq> []"
    and "post env (embeddings_request env u model_name (texts ! 0)) = Inr r"
    and "status_code r \<noteq> 200"
    and "json r = Inr body"
    and "subscript body ''error'' = Inr err"
    and "subscript err ''code'' = Inr code"
    and "subscript err ''message'' = Inr msg"
  shows "snd (invoke env model_name credentials texts) =
           Inl (Exn (if py_eq_int code 500 then InvokeServerUnavailableError
                     else if status_code r = 401 then InvokeAuthorizationError
                     else if status_code r = 429 then InvokeRateLimitError
                     else if status_code r = 500 then InvokeServerUnavailableError
                     else InvokeError)
                  (Arg msg))"
proof -
  have "snd (invoke env model_name credentials texts) =
          handle_response env model_name credentials r"
    using assms(1-5) by (rule invoke_answered)
  also have "\<dots> = Inl (error_response env r)"
    using assms(6) by (simp add: handle_response_def)
  finally show ?thesis
    using assms(7-10) by (simp add: error_response_def)
qed

theorem invoke_error_dispatch_witness:
  "length [''ping''] = 1 \<and> sample_credentials ''server_url'' = Some ''http://localhost:8080'' \<and>
   status_code (error_reply 401 (JFloat 0x407F400000000000)) \<noteq> 200 \<and>
   py_eq_int (JFloat 0x407F400000000000) 500 \<and>
   snd (invoke (sample_env (error_reply 401 (JFloat 0x407F400000000000))) ''m''
          sample_credentials [''ping'']) =
     Inl (Exn InvokeServerUnavailableError (Arg (JStr ''bad key''))) \<and>
   status_code (error_reply 429 (JInt 429)) \<noteq> 200 \<and> \<not> py_eq_int (JInt 429) 500 \<and>
   snd (invoke (sample_env (error_reply 429 (JInt 429))) ''m'' sample_credentials [''ping'']) =
     Inl (Exn InvokeRateLimitError (Arg (JStr ''bad key''))) \<and>
   status_code (error_reply 404 (JStr ''500'')) \<noteq> 200 \<and> \<not> py_eq_int (JStr ''500'') 500 \<and>
   snd (invoke (sample_env (error_reply 404 (JStr ''500''))) ''m'' sample_credentials
          [''ping'']) =
     Inl (Exn InvokeError (Arg (JStr ''bad key'')))"
proof -
  have five: "py_eq_int (JFloat 0x407F400000000000) 500"
    by (simp add: float_eq_int_def)
  have fields: "status_code (error_reply st c) = st"
    "json (error_reply st c) =
       Inr (JObj [(''error'', JObj [(''code'', c), (''message'', JStr ''bad key'')])])"
    for st c
    by (simp_all add: error_reply_def)
  have use: "snd (invoke (sample_env (error_reply st c)) ''m'' sample_credentials [''ping'']) =
           Inl (Exn (if py_eq_int c 500 then InvokeServerUnavailableError
                     else if st = 401 then InvokeAuthorizationError
                     else if st = 429 then InvokeRateLimitError
                     else if st = 500 then InvokeServerUnavailableError
                     else InvokeError)
                  (Arg (JStr ''bad key'')))"
    if "st \<noteq> 200" for st c
    using that
      invoke_error_dispatch [of "[''ping'']" sample_credentials "''http://localhost:8080''"
        "''m''" "sample_env (error_reply st c)" "error_reply st c"
        "JObj [(''error'', JObj [(''code'', c), (''message'', JStr ''bad key'')])]"
        "JObj [(''code'', c), (''message'', JStr ''bad key'')]" c "JStr ''bad key''"]
    by (simp add: sample_credentials_def sample_post fields)
  show ?thesis
    using five use [of 401 "JFloat 0x407F400000000000"] use [of 429 "JInt 429"]
      use [of 404 "JStr ''500''"]
    by (simp add: fields sample_credentials_def)
qed

text \<open>
  C4, as amended: a response with status 200 whose body cannot be parsed, or whose parsed
  body gives no \<open>data\<close> or no \<open>usage\<close>, makes \<open>_invoke\<close> raise
  \<open>InvokeServerUnavailableError\<close> with a message that ends with the raw text of the
  response.
\<close>

theorem invoke_unreadable_body:
  assumes "length texts = 1" and "credentials ''server_url'' = Some u" and "u \<noteq> []"
    and "model_name \<noteq> []"
    and "post env (embeddings_request env u model_name (texts ! 0)) = Inr r"
    and "status_code r = 200"
    and "(\<exists>e. json r = Inl e \<and> cls e = JSONDecodeError) \<or>
         (\<exists>body. json r = Inr body \<and>
            (isl (subscript body ''data'') \<or> isl (subscript body ''usage'')))"
  shows "\<exists>e. snd (invoke env model_name credentials texts) =
           Inl (Exn InvokeServerUnavailableError
                  (Arg (JStr (''Failed to convert response to json: '' @ str_exn env e
                              @ '' with text: '' @ raw_text r))))"
proof -
  have sub: "is_Exception (cls e)"
    if "subscript v k = Inl e" for v k e
    using that by (cases v) (auto split: option.splits)
  have "\<exists>e. read_body env r = Inl (parse_failure env e r)"
    using assms(7)
    by (auto simp: read_body_def Let_def isl_def sub split: sum.splits)
  then obtain e where "read_body env r = Inl (parse_failure env e r)" ..
  moreover have "snd (invoke env model_name credentials texts) =
          handle_response env model_name credentials r"
    using assms(1-5) by (rule invoke_answered)
  ultimately have "snd (invoke env model_name credentials texts) = Inl (parse_failure env e r)"
    using assms(6) by (simp add: handle_response_def)
  then show ?thesis by (auto simp: parse_failure_def)
qed

theorem invoke_unreadable_body_witness:
  "length [''ping''] = 1 \<and> sample_credentials ''server_url'' = Some ''http://localhost:8080'' \<and>
   status_code malformed_response = 200 \<and>
   json malformed_response = Inl (Exn JSONDecodeError Interp) \<and>
   snd (invoke (sample_env malformed_response) ''m'' sample_credentials [''ping'']) =
     Inl (Exn InvokeServerUnavailableError
            (Arg (JStr ''Failed to convert response to json: error with text: <html>''))) \<and>
   status_code no_data_response = 200 \<and>
   json no_data_response = Inr (JObj [(''usage'', JObj [(''total_tokens'', JInt 5)])]) \<and>
   isl (subscript (JObj [(''usage'', JObj [(''total_tokens'', JInt 5)])]) ''data'') \<and>
   snd (invoke (sample_env no_data_response) ''m'' sample_credentials [''ping'']) =
     Inl (Exn InvokeServerUnavailableError
            (Arg (JStr ''Failed to convert response to json: error with text: no data'')))"
  using invoke_unreadable_body [of "[''ping'']" sample_credentials "''http://localhost:8080''"
      "''m''" "sample_env malformed_response" malformed_response]
    invoke_unreadable_body [of "[''ping'']" sample_credentials "''http://localhost:8080''"
      "''m''" "sample_env no_data_response" no_data_response]
  by (simp add: sample_credentials_def sample_post)
     (simp add: malformed_response_def no_data_response_def sample_env_def)

text \<open>
  The claim as written fails for \<open>usage.total_tokens\<close>: that key is read at line 84,
  after the guarded block, and its absence raises \<open>KeyError\<close>.
\<close>

theorem invoke_unreadable_body_counterexample:
  "status_code no_total_tokens_response = 200 \<and>
   json no_total_tokens_response =
     Inr (JObj [(''data'', JArr []), (''usage'', JObj [])]) \<and>
   snd (invoke (sample_env no_total_tokens_response) ''m'' sample_credentials [''ping'']) =
     Inl (Exn KeyError (Arg (JStr ''total_tokens'')))"
  by (simp add: sample_invoke sample_no_total_tokens) (simp add: no_total_tokens_response_def)

text \<open>
  C5: when the probe raises \<open>InvokeAuthorizationError\<close> or \<open>InvokeConnectionError\<close>,
  \<open>validate_credentials\<close> raises \<open>CredentialsValidateFailedError\<close>; when it raises
  anything else, that exception leaves \<open>validate_credentials\<close> as it is; when it returns,
  \<open>validate_credentials\<close> returns.
\<close>

theorem validate_credentials_outcomes:
  "(snd (invoke env model_name credentials [''ping'']) = Inl e \<and>
      (cls e = InvokeAuthorizationError \<or> cls e = InvokeConnectionError) \<longrightarrow>
      (\<exists>p. snd (validate_credentials env model_name credentials) =
             Inl (Exn CredentialsValidateFailedError p))) \<and>
   (snd (invoke env model_name credentials [''ping'']) = Inl e \<and>
      cls e \<noteq> InvokeAuthorizationError \<and> cls e \<noteq> InvokeConnectionError \<longrightarrow>
      snd (validate_credentials env model_name credentials) = Inl e) \<and>
   (snd (invoke env model_name credentials [''ping'']) = Inr res \<longrightarrow>
      snd (validate_credentials env model_name credentials) = Inr ())"
  by (cases "invoke env model_name credentials [''ping'']")
     (auto simp: validate_credentials_def)

theorem validate_credentials_outcomes_witness:
  "snd (invoke (sample_env (error_reply 401 (JInt 401))) ''m'' sample_credentials [''ping'']) =
     Inl (Exn InvokeAuthorizationError (Arg (JStr ''bad key''))) \<and>
   snd (validate_credentials (sample_env (error_reply 401 (JInt 401))) ''m''
          sample_credentials) =
     Inl (Exn CredentialsValidateFailedError (Arg (JStr ''Invalid credentials''))) \<and>
   snd (invoke offline_env ''m'' sample_credentials [''ping'']) =
     Inl (Exn InvokeConnectionError
            (Cause (Exn (OtherException ''ConnectionError'') Interp))) \<and>
   snd (validate_credentials offline_env ''m'' sample_credentials) =
     Inl (Exn CredentialsValidateFailedError (Arg (JStr ''Invalid credentials: error''))) \<and>
   snd (invoke (sample_env (error_reply 429 (JInt 429))) ''m'' sample_credentials [''ping'']) =
     Inl (Exn InvokeRateLimitError (Arg (JStr ''bad key''))) \<and>
   snd (validate_credentials (sample_env (error_reply 429 (JInt 429))) ''m''
          sample_credentials) =
     Inl (Exn InvokeRateLimitError (Arg (JStr ''bad key''))) \<and>
   snd (invoke (sample_env ok_response) ''m'' sample_credentials [''ping'']) =
     Inr \<lparr>model = ''m'', embeddings = [[0x3FB999999999999A, 0x3FC999999999999A]],
          usage = \<lparr>tokens = 5, total_tokens = 5, usage_unit_price = 0, price_unit = 0,
                   total_price = 0, usage_currency = ''USD'', latency = 0\<rparr>\<rparr> \<and>
   snd (validate_credentials (sample_env ok_response) ''m'' sample_credentials) = Inr ()"
proof -
  have a: "snd (invoke (sample_env (error_reply 401 (JInt 401))) ''m'' sample_credentials
                  [''ping'']) =
     Inl (Exn InvokeAuthorizationError (Arg (JStr ''bad key'')))"
    by (simp add: sample_invoke sample_error_reply)
  have b: "snd (invoke (sample_env (error_reply 429 (JInt 429))) ''m'' sample_credentials
                  [''ping'']) =
     Inl (Exn InvokeRateLimitError (Arg (JStr ''bad key'')))"
    by (simp add: sample_invoke sample_error_reply)
  have c: "snd (invoke (sample_env ok_response) ''m'' sample_credentials [''ping'']) =
     Inr \<lparr>model = ''m'', embeddings = [[0x3FB999999999999A, 0x3FC999999999999A]],
          usage = \<lparr>tokens = 5, total_tokens = 5, usage_unit_price = 0, price_unit = 0,
                   total_price = 0, usage_currency = ''USD'', latency = 0\<rparr>\<rparr>"
    by (simp add: sample_invoke sample_ok)
  have d: "snd (invoke offline_env ''m'' sample_credentials [''ping'']) =
     Inl (Exn InvokeConnectionError
            (Cause (Exn (OtherException ''ConnectionError'') Interp)))"
    by (simp add: invoke_def Let_def sample_credentials_def offline_env_def)
  have a': "snd (validate_credentials (sample_env (error_reply 401 (JInt 401))) ''m''
                   sample_credentials) =
              Inl (Exn CredentialsValidateFailedError (Arg (JStr ''Invalid credentials'')))"
    by (simp add: validate_credentials_def sample_invoke sample_error_reply)
  have d': "snd (validate_credentials offline_env ''m'' sample_credentials) =
              Inl (Exn CredentialsValidateFailedError
                     (Arg (JStr ''Invalid credentials: error'')))"
    by (simp add: validate_credentials_def invoke_def Let_def sample_credentials_def
        offline_env_def sample_env_def)
  from a a' b c d d'
    validate_credentials_outcomes [of "sample_env (error_reply 401 (JInt 401))" "''m''"
      sample_credentials "Exn InvokeAuthorizationError (Arg (JStr ''bad key''))"]
    validate_credentials_outcomes [of offline_env "''m''" sample_credentials
      "Exn InvokeConnectionError (Cause (Exn (OtherException ''ConnectionError'') Interp))"]
    validate_credentials_outcomes [of "sample_env (error_reply 429 (JInt 429))" "''m''"
      sample_credentials "Exn InvokeRateLimitError (Arg (JStr ''bad key''))"]
    validate_credentials_outcomes [of "sample_env ok_response" "''m''" sample_credentials _
      "\<lparr>model = ''m'', embeddings = [[0x3FB999999999999A, 0x3FC999999999999A]],
          usage = \<lparr>tokens = 5, total_tokens = 5, usage_unit_price = 0, price_unit = 0,
                   total_price = 0, usage_currency = ''USD'', latency = 0\<rparr>\<rparr>"]
  show ?thesis by simp
qed

text \<open>
  C6: for every list of texts whose length is not 1, \<open>_invoke\<close> raises
  \<open>InvokeBadRequestError\<close> and has handed no request to \<open>post\<close>.
\<close>

theorem invoke_texts_length:
  "length texts \<noteq> 1 \<Longrightarrow>
     invoke env model_name credentials texts =
       ([], Inl (Exn InvokeBadRequestError (Arg (JStr ''Only one text is supported''))))"
  by (simp add: invoke_def)

theorem invoke_texts_length_witness:
  "length [''a'', ''b''] \<noteq> 1 \<and> length ([] :: string list) \<noteq> 1 \<and>
   invoke (sample_env ok_response) ''m'' sample_credentials [''a'', ''b''] =
     ([], Inl (Exn InvokeBadRequestError (Arg (JStr ''Only one text is supported'')))) \<and>
   invoke (sample_env ok_response) ''m'' sample_credentials [] =
     ([], Inl (Exn InvokeBadRequestError (Arg (JStr ''Only one text is supported''))))"
  using invoke_texts_length [of "[''a'', ''b'']" "sample_env ok_response" "''m''"
      sample_credentials]
    invoke_texts_length [of "[]" "sample_env ok_response" "''m''" sample_credentials]
  by simp

text \<open>
  C7: when the server answers with status 200 and the body
  \<open>{"data": [{"embedding": [0.1, 0.2]}], "usage": {"total_tokens": 5}}\<close>, and the price
  lookup returns, \<open>_invoke\<close> returns a result with the one embedding \<open>[0.1, 0.2]\<close> and
  a usage whose \<open>tokens\<close> is 5. The two floats are the doubles that the literals denote.
\<close>

theorem invoke_example_body:
  assumes "length texts = 1" and "credentials ''server_url'' = Some u" and "u \<noteq> []"
    and "model_name \<noteq> []"
    and "post env (embeddings_request env u model_name (texts ! 0)) = Inr r"
    and "status_code r = 200"
    and "json r =
           Inr (JObj [(''data'', JArr [JObj [(''embedding'',
                        JArr [JFloat 0x3FB999999999999A, JFloat 0x3FC999999999999A])]]),
                      (''usage'', JObj [(''total_tokens'', JInt 5)])])"
    and "get_price env model_name credentials INPUT (JInt 5) = Inr p"
  shows "\<exists>res. snd (invoke env model_name credentials texts) = Inr res \<and>
           embeddings res = [[0x3FB999999999999A, 0x3FC999999999999A]] \<and>
           tokens (usage res) = 5 \<and> total_tokens (usage res) = 5 \<and> model res = model_name"
proof -
  have "snd (invoke env model_name credentials texts) =
          handle_response env model_name credentials r"
    using assms(1-5) by (rule invoke_answered)
  then show ?thesis
    using assms(6-8) by (simp add: response_defs)
qed

theorem invoke_example_body_witness:
  "length [''ping''] = 1 \<and> sample_credentials ''server_url'' = Some ''http://localhost:8080'' \<and>
   post (sample_env ok_response)
     (embeddings_request (sample_env ok_response) ''http://localhost:8080'' ''m''
        ([''ping''] ! 0)) = Inr ok_response \<and>
   status_code ok_response = 200 \<and>
   get_price (sample_env ok_response) ''m'' sample_credentials INPUT (JInt 5) =
     Inr \<lparr>unit_price = 0, unit = 0, total_amount = 0, currency = ''USD''\<rparr> \<and>
   (\<exists>res. snd (invoke (sample_env ok_response) ''m'' sample_credentials [''ping'']) = Inr res \<and>
      embeddings res = [[0x3FB999999999999A, 0x3FC999999999999A]] \<and>
      tokens (usage res) = 5 \<and> total_tokens (usage res) = 5 \<and> model res = ''m'')"
  using invoke_example_body [of "[''ping'']" sample_credentials "''http://localhost:8080''"
      "''m''" "sample_env ok_response" ok_response
      "\<lparr>unit_price = 0, unit = 0, total_amount = 0, currency = ''USD''\<rparr>"]
  by (simp add: sample_credentials_def sample_post)
     (simp add: ok_response_def sample_env_def)

text \<open>
  C8, as amended: for one text, a nonempty \<open>server_url\<close> and a nonempty model name,
  \<open>_invoke\<close> hands \<open>post\<close> exactly one request. Its URL is
  \<open>os.path.join(server_url, 'embeddings')\<close>: \<open>server_url\<close> followed by \<open>/embeddings\<close>,
  or by \<open>embeddings\<close> alone when \<open>server_url\<close> ends with a slash. Its headers are
  \<open>Authorization: Bearer 123\<close> and \<open>Content-Type: application/json\<close>, its body the JSON
  text of \<open>{"model": model, "input": texts[0]}\<close>, its timeout 10 seconds.
\<close>

theorem invoke_request:
  assumes "length texts = 1" and "credentials ''server_url'' = Some u" and "u \<noteq> []"
    and "model_name \<noteq> []"
  shows "fst (invoke env model_name credentials texts) =
           [\<lparr>url = (if last u = CHR ''/'' then u @ ''embeddings'' else u @ ''/embeddings''),
             headers = [(''Authorization'', ''Bearer 123''),
                        (''Content-Type'', ''application/json'')],
             data = dumps env (JObj [(''model'', JStr model_name),
                                     (''input'', JStr (texts ! 0))]),
             timeout = 10\<rparr>]"
  using assms
  by (simp add: invoke_valid embeddings_request_def join_def join_step_def)

theorem invoke_request_witness:
  "length [''ping''] = 1 \<and> sample_credentials ''server_url'' = Some ''http://localhost:8080'' \<and>
   fst (invoke (sample_env ok_response) ''m'' sample_credentials [''ping'']) =
     [\<lparr>url = ''http://localhost:8080/embeddings'',
       headers = [(''Authorization'', ''Bearer 123''), (''Content-Type'', ''application/json'')],
       data = dumps (sample_env ok_response)
                (JObj [(''model'', JStr ''m''), (''input'', JStr ''ping'')]),
       timeout = 10\<rparr>]"
  using invoke_request [of "[''ping'']" sample_credentials "''http://localhost:8080''" "''m''"
      "sample_env ok_response"]
  by (simp add: sample_credentials_def)

text \<open>
  The claim as written fails for a \<open>server_url\<close> that ends with a slash: the URL is not
  \<open>server_url\<close> followed by \<open>/embeddings\<close>.
\<close>

theorem invoke_request_counterexample:
  "map url (fst (invoke (sample_env ok_response) ''m'' [''server_url'' \<mapsto> ''http://h/'']
                   [''ping''])) = [''http://h/embeddings''] \<and>
   ''http://h/embeddings'' \<noteq> ''http://h/'' @ ''/embeddings''"
  by (simp add: invoke_def Let_def embeddings_request_def join_def join_step_def)

text \<open>
  C9: when the first call of \<open>get_encoder\<close> returns, it has loaded the tokenizer once,
  and every later call returns the same instance and changes nothing: the list of loads
  stays as it is. In particular the first two calls return the same instance.
\<close>

theorem get_encoder_cached:
  assumes "get_encoder env initial = (Inr h, s)"
  shows "loads s = [gpt2_tokenizer_path env] \<and> tokenizer s = Some h \<and>
         calls env n s = (replicate n (Inr h), s) \<and>
         calls env 2 initial = ([Inr h, Inr h], s)"
proof -
  from assms have s: "loads s = [gpt2_tokenizer_path env]" "tokenizer s = Some h"
    by (auto simp: get_encoder_def initial_def split: sum.splits)
  from s(2) have again: "get_encoder env s = (Inr h, s)"
    by (simp add: get_encoder_def)
  have later: "calls env k s = (replicate k (Inr h), s)" for k
    by (induction k) (simp_all add: again)
  have "calls env (Suc (Suc 0)) initial = ([Inr h, Inr h], s)"
    using assms again by simp
  then have "calls env 2 initial = ([Inr h, Inr h], s)"
    by (simp only: numeral_2_eq_2)
  with s later show ?thesis by simp
qed

theorem get_encoder_cached_witness:
  "get_encoder sample_tok_env initial =
     (Inr 0, \<lparr>tokenizer = Some 0, loads = [''/app/minimax/../__base/tokenizers/gpt2'']\<rparr>) \<and>
   calls sample_tok_env 3
       \<lparr>tokenizer = Some 0, loads = [''/app/minimax/../__base/tokenizers/gpt2'']\<rparr> =
     ([Inr 0, Inr 0, Inr 0],
      \<lparr>tokenizer = Some 0, loads = [''/app/minimax/../__base/tokenizers/gpt2'']\<rparr>) \<and>
   calls sample_tok_env 2 initial =
     ([Inr 0, Inr 0],
      \<lparr>tokenizer = Some 0, loads = [''/app/minimax/../__base/tokenizers/gpt2'']\<rparr>)"
proof -
  have h: "get_encoder sample_tok_env initial =
     (Inr 0, \<lparr>tokenizer = Some 0, loads = [''/app/minimax/../__base/tokenizers/gpt2'']\<rparr>)"
    by (simp add: get_encoder_def initial_def sample_tok_env_def gpt2_tokenizer_path_def
        join_def join_step_def dirname_def)
  have r: "replicate 3 (Inr 0 :: exn + nat) = [Inr 0, Inr 0, Inr 0]"
    by (simp add: numeral_3_eq_3)
  from get_encoder_cached [OF h, of 3]
  have "calls sample_tok_env 3
            \<lparr>tokenizer = Some 0, loads = [''/app/minimax/../__base/tokenizers/gpt2'']\<rparr> =
          (replicate 3 (Inr 0),
           \<lparr>tokenizer = Some 0, loads = [''/app/minimax/../__base/tokenizers/gpt2'']\<rparr>)"
    and "calls sample_tok_env 2 initial =
          ([Inr 0, Inr 0],
           \<lparr>tokenizer = Some 0, loads = [''/app/minimax/../__base/tokenizers/gpt2'']\<rparr>)"
    by blast+
  with h r show ?thesis by (simp only: simp_thms)
qed

text \<open>
  C10: the length test comes before the credentials: for a list of texts whose length is
  not 1, \<open>_invoke\<close> raises \<open>InvokeBadRequestError\<close> also when the \<open>server_url\<close> is
  missing or empty or the model name is empty, and never
  \<open>CredentialsValidateFailedError\<close>.
\<close>

theorem invoke_length_before_credentials:
  assumes "length texts \<noteq> 1"
    and "credentials ''server_url'' = None \<or> credentials ''server_url'' = Some [] \<or>
         model_name = []"
  shows "(\<exists>p. snd (invoke env model_name credentials texts) =
               Inl (Exn InvokeBadRequestError p)) \<and>
         (\<forall>p. snd (invoke env model_name credentials texts) \<noteq>
               Inl (Exn CredentialsValidateFailedError p)) \<and>
         fst (invoke env model_name credentials texts) = []"
  using assms(1) by (simp add: invoke_def)

theorem invoke_length_before_credentials_witness:
  "length ([] :: string list) \<noteq> 1 \<and> (Map.empty :: string \<rightharpoonup> string) ''server_url'' = None \<and>
   snd (invoke (sample_env ok_response) '''' Map.empty []) =
     Inl (Exn InvokeBadRequestError (Arg (JStr ''Only one text is supported''))) \<and>
   [''server_url'' \<mapsto> ''''] ''server_url'' = Some '''' \<and>
   snd (invoke (sample_env ok_response) ''m'' [''server_url'' \<mapsto> ''''] [''a'', ''b'']) =
     Inl (Exn InvokeBadRequestError (Arg (JStr ''Only one text is supported'')))"
proof -
  have a: "snd (invoke (sample_env ok_response) '''' Map.empty []) =
     Inl (Exn InvokeBadRequestError (Arg (JStr ''Only one text is supported'')))"
    by (simp add: invoke_def)
  have b: "snd (invoke (sample_env ok_response) ''m'' [''server_url'' \<mapsto> ''''] [''a'', ''b'']) =
     Inl (Exn InvokeBadRequestError (Arg (JStr ''Only one text is supported'')))"
    by (simp add: invoke_def)
  from a b
    invoke_length_before_credentials [of "[]" Map.empty "''''" "sample_env ok_response"]
    invoke_length_before_credentials [of "[''a'', ''b'']" "[''server_url'' \<mapsto> '''']" "''m''"
      "sample_env ok_response"]
  show ?thesis by simp
qed

end
